theory Spec2Isabelle
  imports Main
begin

section \<open>Strings\<close>

text \<open>
  A Python \<open>str\<close> is modelled by the bytes of its UTF-8 encoding (a \<open>string\<close>, one
  \<open>char\<close> per byte), and a Python \<open>bytes\<close> object by its bytes. Concatenation,
  equality and splitting at \<open>/\<close> agree with Python's on code points, because the
  encoding is injective and the byte \<open>0x2F\<close> occurs in no multi-byte sequence.
\<close>

definition byte_in :: "nat \<Rightarrow> nat \<Rightarrow> char \<Rightarrow> bool" where
  "byte_in lo hi c = (lo \<le> (of_char c :: nat) \<and> (of_char c :: nat) \<le> hi)"

text \<open>
  \<open>utf8_seq_len s\<close> is the length of the well-formed UTF-8 byte sequence at the head
  of \<open>s\<close> (Unicode Standard, table 3-7: no overlong form, no surrogate, nothing above
  U+10FFFF), and 0 when there is none. This is what the strict decoder of
  \<open>bytes.decode()\<close> accepts.
\<close>

definition utf8_seq_len :: "string \<Rightarrow> nat" where
  "utf8_seq_len s =
     (case s of
        [] \<Rightarrow> 0
      | a # t \<Rightarrow>
          if byte_in 0x00 0x7F a then 1
          else if byte_in 0xC2 0xDF a then
            (case t of
               b # _ \<Rightarrow> if byte_in 0x80 0xBF b then 2 else 0
             | _ \<Rightarrow> 0)
          else if byte_in 0xE0 0xEF a then
            (case t of
               b # c # _ \<Rightarrow>
                 if (if byte_in 0xE0 0xE0 a then byte_in 0xA0 0xBF b
                     else if byte_in 0xED 0xED a then byte_in 0x80 0x9F b
                     else byte_in 0x80 0xBF b)
                    \<and> byte_in 0x80 0xBF c
                 then 3 else 0
             | _ \<Rightarrow> 0)
          else if byte_in 0xF0 0xF4 a then
            (case t of
               b # c # d # _ \<Rightarrow>
                 if (if byte_in 0xF0 0xF0 a then byte_in 0x90 0xBF b
                     else if byte_in 0xF4 0xF4 a then byte_in 0x80 0x8F b
                     else byte_in 0x80 0xBF b)
                    \<and> byte_in 0x80 0xBF c \<and> byte_in 0x80 0xBF d
                 then 4 else 0
             | _ \<Rightarrow> 0)
          else 0)"

function utf8_valid :: "string \<Rightarrow> bool" where
  "utf8_valid s =
     (if s = [] then True
      else if utf8_seq_len s = 0 then False
      else utf8_valid (drop (utf8_seq_len s) s))"
  by pat_completeness auto
termination
  by (relation "measure length") auto

declare utf8_valid.simps [simp del]

datatype exn =
    ValueError string
  | RuntimeError string
  | OSError
  | UnicodeDecodeError
  | NameError string

text \<open>\<open>bytes.decode()\<close>: UTF-8, strict. The text is modelled by the same bytes.\<close>

definition decode :: "string \<Rightarrow> exn + string" where
  "decode bs = (if utf8_valid bs then Inr bs else Inl UnicodeDecodeError)"

text \<open>
  The code points for which \<open>str.isspace\<close> holds, in UTF-8: U+0009..U+000D,
  U+001C..U+0020, U+0085, U+00A0, U+1680, U+2000..U+200A, U+2028, U+2029, U+202F,
  U+205F, U+3000.
\<close>

definition whitespace :: "string list" where
  "whitespace =
     map (\<lambda>n. [char_of (n::nat)]) [0x09, 0x0A, 0x0B, 0x0C, 0x0D, 0x1C, 0x1D, 0x1E, 0x1F, 0x20]
     @ map (map (char_of :: nat \<Rightarrow> char))
        [[0xC2, 0x85], [0xC2, 0xA0], [0xE1, 0x9A, 0x80],
         [0xE2, 0x80, 0x80], [0xE2, 0x80, 0x81], [0xE2, 0x80, 0x82], [0xE2, 0x80, 0x83],
         [0xE2, 0x80, 0x84], [0xE2, 0x80, 0x85], [0xE2, 0x80, 0x86], [0xE2, 0x80, 0x87],
         [0xE2, 0x80, 0x88], [0xE2, 0x80, 0x89], [0xE2, 0x80, 0x8A],
         [0xE2, 0x80, 0xA8], [0xE2, 0x80, 0xA9], [0xE2, 0x80, 0xAF],
         [0xE2, 0x81, 0x9F], [0xE3, 0x80, 0x80]]"

definition starts_with :: "string \<Rightarrow> string \<Rightarrow> bool" where
  "starts_with s w = (take (length w) s = w)"

text \<open>
  \<open>lstrip_with ws s\<close> removes from the head of \<open>s\<close> every leading occurrence of a
  member of \<open>ws\<close>. The members of \<open>whitespace\<close> are non-empty, and an empty member is
  never matched.
\<close>

function lstrip_with :: "string list \<Rightarrow> string \<Rightarrow> string" where
  "lstrip_with ws s =
     (case find (\<lambda>w. w \<noteq> [] \<and> starts_with s w) ws of
        None \<Rightarrow> s
      | Some w \<Rightarrow> if s = [] then s else lstrip_with ws (drop (length w) s))"
  by pat_completeness auto
termination
  by (relation "measure (\<lambda>(ws, s). length s)") (auto dest: find_Some_iff [THEN iffD1])

declare lstrip_with.simps [simp del]

text \<open>
  \<open>str.strip()\<close>. In a well-formed UTF-8 string a suffix that is the encoding of a code
  point is the last code point, so the trailing whitespace is stripped on the reversed
  bytes.
\<close>

definition strip :: "string \<Rightarrow> string" where
  "strip s = rev (lstrip_with (map rev whitespace) (rev (lstrip_with whitespace s)))"

section \<open>Paths (\<open>pathlib\<close>, POSIX flavour)\<close>

text \<open>
  A path is its anchor (\<open>''''\<close> for a relative path, \<open>''/''\<close> or \<open>''//''\<close>) and its
  components. The only platform on which a path reaches the player is \<open>darwin\<close>, where
  \<open>pathlib.Path\<close> is a \<open>PosixPath\<close>.
\<close>

datatype path = Path (anchor: string) (parts: "string list")

text \<open>\<open>str.split(sep)\<close> for a one-character separator.\<close>

fun split_on :: "char \<Rightarrow> string \<Rightarrow> string list" where
  "split_on sep [] = [[]]"
| "split_on sep (c # cs) =
     (if c = sep then [] # split_on sep cs
      else (case split_on sep cs of
              [] \<Rightarrow> [[c]]
            | w # ws \<Rightarrow> (c # w) # ws))"

text \<open>
  \<open>splitroot\<close> of the POSIX flavour: exactly two leading slashes are kept as the
  root \<open>//\<close>, any other number of them is the root \<open>/\<close>.
\<close>

definition splitroot :: "string \<Rightarrow> string \<times> string" where
  "splitroot part =
     (case part of
        [] \<Rightarrow> ('''', part)
      | c # _ \<Rightarrow>
          if c = CHR ''/'' then
            (let stripped_part = dropWhile (\<lambda>x. x = CHR ''/'') part
             in if length part - length stripped_part = 2 then (''//'', stripped_part)
                else (''/'', stripped_part))
          else ('''', part))"

text \<open>
  \<open>parse_parts\<close> for one segment: the root, and the components that are neither
  empty nor \<open>.\<close>.
\<close>

definition parse_part :: "string \<Rightarrow> string \<times> string list" where
  "parse_part part =
     (if part = [] then ('''', [])
      else (let (r, rel) = splitroot part
            in (r, filter (\<lambda>x. x \<noteq> [] \<and> x \<noteq> ''.'') (split_on CHR ''/'' rel))))"

text \<open>\<open>p.joinpath(arg)\<close>: a rooted argument replaces the path.\<close>

definition joinpath :: "path \<Rightarrow> string \<Rightarrow> path" where
  "joinpath p arg =
     (let (r, ps) = parse_part arg
      in if r \<noteq> [] then Path r ps else Path (anchor p) (parts p @ ps))"

text \<open>The child that \<open>iterdir\<close> builds for a directory entry: the name is not parsed.\<close>

definition make_child_relpath :: "path \<Rightarrow> string \<Rightarrow> path" where
  "make_child_relpath p entry = Path (anchor p) (parts p @ [entry])"

text \<open>\<open>p.name\<close>: the last component, empty when there is none.\<close>

definition path_name :: "path \<Rightarrow> string" where
  "path_name p = (if parts p = [] then '''' else last (parts p))"

fun join_with :: "string \<Rightarrow> string list \<Rightarrow> string" where
  "join_with sep [] = []"
| "join_with sep [x] = x"
| "join_with sep (x # y # ys) = x @ sep @ join_with sep (y # ys)"

text \<open>\<open>str(p)\<close>.\<close>

definition str_path :: "path \<Rightarrow> string" where
  "str_path p =
     (if anchor p = [] \<and> parts p = [] then ''.''
      else anchor p @ join_with ''/'' (parts p))"

section \<open>The host and the module state\<close>

text \<open>
  What a finished \<open>subprocess.run(..., capture_output=True)\<close> delivers: the exit status
  and the bytes the child wrote to its standard error.
\<close>

datatype completed = Completed (returncode: int) (stderr: string)

text \<open>The error numbers with which \<open>os.stat\<close> fails.\<close>

datatype errno = ENOENT | ENOTDIR | EBADF | ELOOP | EACCES | ENAMETOOLONG | EIO

text \<open>
  The host is everything the module reads and does not own: \<open>sys.platform\<close>, the
  directory of the module file (\<open>pathlib.Path(__file__).parent\<close>), the file system as
  \<open>os.listdir\<close> and \<open>os.stat\<close> answer at the time of the call (\<open>listdir\<close> is
  \<open>None\<close> where the directory cannot be listed; \<open>stat\<close> is \<open>None\<close> where the call
  succeeds and the error number where it fails), the outcome of a shell command run
  to completion, the text of \<open>str(e)\<close> for a \<open>CalledProcessError\<close> with a command and
  an exit status, whether the import of IPython succeeded, and whether the name
  \<open>get_ipython\<close> is defined (it is inside an IPython shell only). \<open>is_dir\<close> is not
  read by the module; it says which entries are directories.
\<close>

record host =
  platform :: string
  here :: path
  listdir :: "path \<Rightarrow> string list option"
  stat :: "path \<Rightarrow> errno option"
  is_dir :: "path \<Rightarrow> bool"
  run_outcome :: "string \<Rightarrow> completed"
  str_CalledProcessError :: "string \<Rightarrow> int \<Rightarrow> string"
  IPYTHON_INSTALLED :: bool
  get_ipython_defined :: bool

text \<open>
  \<open>Path.exists()\<close>: the path exists when \<open>os.stat\<close> succeeds; it does not when the
  call fails with one of the error numbers that \<open>pathlib\<close> ignores; any other
  \<open>OSError\<close> is raised again.
\<close>

definition ignore_error :: "errno \<Rightarrow> bool" where
  "ignore_error e = (e \<in> {ENOENT, ENOTDIR, EBADF, ELOOP})"

definition path_exists :: "host \<Rightarrow> path \<Rightarrow> exn + bool" where
  "path_exists h p =
     (case stat h p of
        None \<Rightarrow> Inr True
      | Some e \<Rightarrow> if ignore_error e then Inr False else Inl OSError)"

datatype exc_info = Exc_info (exctype: string) (exc_value: string) (exc_traceback: string)

datatype stderr_dest = DEVNULL | PIPE

text \<open>
  What the module does to the world, in order: a directory listing, an existence test,
  \<open>subprocess.Popen\<close> (the child is started and not waited for), \<open>subprocess.run\<close>
  (the child is run to its end), \<open>warnings.warn\<close>, and a call of
  \<open>sys.__excepthook__\<close>. Each is recorded with its arguments; the second component of
  \<open>Popen\<close> and \<open>Run\<close> is where the child's standard error goes. The shell that
  starts a child is taken to be there, and a child that is run is taken to end: of the
  exceptions of \<open>subprocess\<close> only \<open>CalledProcessError\<close> is modelled. A call of
  \<open>warnings.warn\<close> is the warning.
\<close>

datatype event =
    Listdir path
  | Stat path
  | Popen string stderr_dest
  | Run string stderr_dest
  | Warn string
  | Default_excepthook exc_info

datatype hook = Sys_excepthook | Except_hook

datatype callback = Watcher_post_run_cell

record state =
  THEME :: string
  excepthook :: hook
  post_run_cell :: "callback list"
  trace :: "event list"

text \<open>The state when the module has been imported: \<open>THEME = 'mario'\<close>.\<close>

definition init_state :: state where
  "init_state = \<lparr>THEME = ''mario'', excepthook = Sys_excepthook, post_run_cell = [], trace = []\<rparr>"

definition emit :: "event \<Rightarrow> state \<Rightarrow> state" where
  "emit e st = st\<lparr>trace := trace st @ [e]\<rparr>"

text \<open>
  A call returns its value or the exception it raises, and the state it leaves in
  either case.
\<close>

type_synonym 'a result = "(exn + 'a) \<times> state"

text \<open>A parameter with a default: \<open>None\<close> is the omitted argument.\<close>

definition kwarg :: "'a \<Rightarrow> 'a option \<Rightarrow> 'a" where
  "kwarg d v = (case v of None \<Rightarrow> d | Some x \<Rightarrow> x)"

section \<open>The module\<close>

definition run :: "host \<Rightarrow> string \<Rightarrow> bool \<Rightarrow> state \<Rightarrow> unit result" where
  "run h command silent st =
     (if silent then (Inr (), emit (Popen command DEVNULL) st)
      else
        (let st1 = emit (Run command PIPE) st;
             e = run_outcome h command
         in if returncode e = 0 then (Inr (), st1)
            else (case decode (stderr e) of
                    Inl x \<Rightarrow> (Inl x, st1)
                  | Inr text \<Rightarrow>
                      (Inr (), emit (Warn (str_CalledProcessError h command (returncode e)
                                           @ '' stderr: '' @ strip text)) st1))))"

definition play_wav :: "host \<Rightarrow> path \<Rightarrow> bool option \<Rightarrow> state \<Rightarrow> unit result" where
  "play_wav h p silent st =
     (if platform h = ''darwin'' then run h (''afplay '' @ str_path p) (kwarg False silent) st
      else (Inl (RuntimeError (''Unsupported platform ('' @ platform h @ '')'')), st))"

definition themes_dir :: "host \<Rightarrow> path" where
  "themes_dir h = joinpath (here h) ''themes''"

definition current_theme_dir :: "host \<Rightarrow> state \<Rightarrow> path" where
  "current_theme_dir h st = joinpath (themes_dir h) (THEME st)"

text \<open>
  \<open>iterdir\<close> lists the directory when the generator is consumed, inside \<open>set(...)\<close>,
  and yields one child path for each name of the listing.
\<close>

definition themes :: "host \<Rightarrow> state \<Rightarrow> string set result" where
  "themes h st =
     (let d = themes_dir h; st1 = emit (Listdir d) st
      in case listdir h d of
           None \<Rightarrow> (Inl OSError, st1)
         | Some entries \<Rightarrow> (Inr (set (map (\<lambda>n. path_name (make_child_relpath d n)) entries)), st1))"

definition theme :: "host \<Rightarrow> string option \<Rightarrow> state \<Rightarrow> string option result" where
  "theme h name st =
     (case name of
        None \<Rightarrow> (Inr (Some (THEME st)), st)
      | Some n \<Rightarrow>
          (case themes h st of
             (Inl x, st1) \<Rightarrow> (Inl x, st1)
           | (Inr available, st1) \<Rightarrow>
               if n \<notin> available then (Inl (ValueError (''Unknown theme ('' @ n @ '')'')), st1)
               else (Inr None, st1\<lparr>THEME := n\<rparr>)))"

definition notify :: "host \<Rightarrow> string \<Rightarrow> bool \<Rightarrow> state \<Rightarrow> unit result" where
  "notify h event silent st =
     (let p = joinpath (current_theme_dir h st) (event @ ''.wav'');
          st1 = emit (Stat p) st
      in case path_exists h p of
           Inl x \<Rightarrow> (Inl x, st1)
         | Inr found \<Rightarrow>
             if \<not> found then (Inl (ValueError (str_path p @ '' is undefined'')), st1)
             else play_wav h p (Some silent) st1)"

definition success :: "host \<Rightarrow> bool option \<Rightarrow> state \<Rightarrow> unit result" where
  "success h silent st = notify h ''success'' (kwarg True silent) st"

definition warning :: "host \<Rightarrow> bool option \<Rightarrow> state \<Rightarrow> unit result" where
  "warning h silent st = notify h ''warning'' (kwarg True silent) st"

definition error :: "host \<Rightarrow> bool option \<Rightarrow> state \<Rightarrow> unit result" where
  "error h silent st = notify h ''error'' (kwarg True silent) st"

definition info :: "host \<Rightarrow> bool option \<Rightarrow> state \<Rightarrow> unit result" where
  "info h silent st = notify h ''info'' (kwarg True silent) st"

text \<open>The closure \<open>except_hook\<close> that \<open>notify_exceptions\<close> installs.\<close>

definition except_hook :: "host \<Rightarrow> exc_info \<Rightarrow> state \<Rightarrow> unit result" where
  "except_hook h exc st =
     (case error h (Some True) st of
        (Inl x, st1) \<Rightarrow> (Inl x, st1)
      | (Inr _, st1) \<Rightarrow> (Inr (), emit (Default_excepthook exc) st1))"

definition notify_exceptions :: "host \<Rightarrow> state \<Rightarrow> unit result" where
  "notify_exceptions h st =
     (let st1 = st\<lparr>excepthook := Except_hook\<rparr>
      in if IPYTHON_INSTALLED h then
           (if get_ipython_defined h then
              (Inr (), st1\<lparr>post_run_cell := post_run_cell st1 @ [Watcher_post_run_cell]\<rparr>)
            else (Inl (NameError ''get_ipython''), st1))
         else (Inr (), st1))"

text \<open>
  What the interpreter does with an exception that nothing caught: it calls the function
  held in \<open>sys.excepthook\<close>.
\<close>

definition uncaught :: "host \<Rightarrow> exc_info \<Rightarrow> state \<Rightarrow> unit result" where
  "uncaught h exc st =
     (case excepthook st of
        Sys_excepthook \<Rightarrow> (Inr (), emit (Default_excepthook exc) st)
      | Except_hook \<Rightarrow> except_hook h exc st)"

section \<open>The specification's reading of the themes root, and example hosts\<close>

text \<open>
  The specification's words for the result of \<open>themes\<close>: the names of the directories
  under the themes root. The module does not compute this set.
\<close>

definition directory_names :: "host \<Rightarrow> string set" where
  "directory_names h =
     (case listdir h (themes_dir h) of
        None \<Rightarrow> {}
      | Some entries \<Rightarrow>
          set (filter (\<lambda>n. is_dir h (make_child_relpath (themes_dir h) n)) entries))"

text \<open>
  The specification's words for a sound file: \<open>themes/<theme>/<file>\<close> below the
  directory of the module.
\<close>

definition theme_file :: "host \<Rightarrow> string \<Rightarrow> string \<Rightarrow> path" where
  "theme_file h name file = Path (anchor (here h)) (parts (here h) @ [''themes'', name, file])"

text \<open>
  A macOS host with the package in \<open>/pkg\<close>: the themes root holds the directory
  \<open>mario\<close> with its four sounds and the file \<open>README.md\<close>; the player fails with
  exit status 1 and the single byte \<open>0xFF\<close> on its standard error,
  \<open>os.stat\<close> fails with \<open>ENAMETOOLONG\<close> for a component of more than 255 bytes
  and with \<open>ENOENT\<close> for any other path that is not in the tree, and
  \<open>str(e)\<close> is the text that \<open>CalledProcessError\<close> has for that status.
\<close>

definition mac_host :: host where
  "mac_host =
     \<lparr>platform = ''darwin'',
      here = Path ''/'' [''pkg''],
      listdir = (\<lambda>p. if p = Path ''/'' [''pkg'', ''themes''] then Some [''mario'', ''README.md'']
                     else if p = Path ''/'' [''pkg'', ''themes'', ''mario'']
                     then Some [''success.wav'', ''warning.wav'', ''error.wav'', ''info.wav'']
                     else None),
      stat = (\<lambda>p. if list_ex (\<lambda>c. 255 < length c) (parts p) then Some ENAMETOOLONG
                  else if p \<in> set [Path ''/'' [''pkg''],
                                    Path ''/'' [''pkg'', ''themes''],
                                    Path ''/'' [''pkg'', ''themes'', ''README.md''],
                                    Path ''/'' [''pkg'', ''themes'', ''mario''],
                                    Path ''/'' [''pkg'', ''themes'', ''mario'', ''success.wav''],
                                    Path ''/'' [''pkg'', ''themes'', ''mario'', ''warning.wav''],
                                    Path ''/'' [''pkg'', ''themes'', ''mario'', ''error.wav''],
                                    Path ''/'' [''pkg'', ''themes'', ''mario'', ''info.wav'']]
                  then None
                  else Some ENOENT),
      is_dir = (\<lambda>p. p = Path ''/'' [''pkg'', ''themes'', ''mario'']),
      run_outcome = (\<lambda>command. Completed 1 [char_of (0xFF :: nat)]),
      str_CalledProcessError =
        (\<lambda>command status. ''Command '' @ [CHR 0x27] @ command @ [CHR 0x27]
                           @ '' returned non-zero exit status 1.''),
      IPYTHON_INSTALLED = False,
      get_ipython_defined = False\<rparr>"

text \<open>The same host, with a player that fails with a readable message.\<close>

definition mac_host_ascii :: host where
  "mac_host_ascii = mac_host\<lparr>run_outcome := (\<lambda>command. Completed 1 ''  no audio device \<newline>'')\<rparr>"

text \<open>The same tree on Linux.\<close>

definition linux_host :: host where
  "linux_host = mac_host\<lparr>platform := ''linux''\<rparr>"

section \<open>Paths the module builds\<close>

lemma joinpath_themes: "joinpath p ''themes'' = Path (anchor p) (parts p @ [''themes''])"
  by (simp add: joinpath_def parse_part_def splitroot_def)

lemma joinpath_mario: "joinpath p ''mario'' = Path (anchor p) (parts p @ [''mario''])"
  by (simp add: joinpath_def parse_part_def splitroot_def)

lemma joinpath_wav:
  "joinpath p ''success.wav'' = Path (anchor p) (parts p @ [''success.wav''])"
  "joinpath p ''warning.wav'' = Path (anchor p) (parts p @ [''warning.wav''])"
  "joinpath p ''error.wav'' = Path (anchor p) (parts p @ [''error.wav''])"
  "joinpath p ''info.wav'' = Path (anchor p) (parts p @ [''info.wav''])"
  by (simp_all add: joinpath_def parse_part_def splitroot_def)

lemma themes_dir_parts: "themes_dir h = Path (anchor (here h)) (parts (here h) @ [''themes''])"
  by (simp add: themes_dir_def joinpath_themes)

lemma path_name_child: "path_name (make_child_relpath d n) = n"
  by (simp add: path_name_def make_child_relpath_def)

lemma split_on_no_sep: "sep \<notin> set s \<Longrightarrow> split_on sep s = [s]"
  by (induction s) auto

text \<open>
  A name without a slash that is neither empty nor \<open>.\<close> is joined as one component.
  A rooted argument is not: it replaces the path it is joined to.
\<close>

lemma joinpath_name:
  assumes "CHR ''/'' \<notin> set s" and "s \<noteq> []" and "s \<noteq> ''.''"
  shows "joinpath p s = make_child_relpath p s"
proof (cases s)
  case Nil
  with assms(2) show ?thesis by simp
next
  case (Cons c cs)
  with assms(1) have "c \<noteq> CHR ''/''" by auto
  with Cons have "splitroot s = ([], s)" by (simp add: splitroot_def)
  with assms show ?thesis
    by (simp add: joinpath_def parse_part_def split_on_no_sep make_child_relpath_def)
qed

lemma joinpath_event_wav:
  assumes "CHR ''/'' \<notin> set event"
  shows "joinpath p (event @ ''.wav'') = make_child_relpath p (event @ ''.wav'')"
proof (rule joinpath_name)
  show "CHR ''/'' \<notin> set (event @ ''.wav'')" using assms by simp
  show "event @ ''.wav'' \<noteq> []" by simp
  have "length (event @ ''.wav'') \<noteq> length ''.''" by simp
  then show "event @ ''.wav'' \<noteq> ''.''" by metis
qed

lemma joinpath_rooted_event:
  "joinpath p (''/tmp/x'' @ ''.wav'') = Path ''/'' [''tmp'', ''x.wav'']"
  by (simp add: joinpath_def parse_part_def splitroot_def)

lemma current_theme_dir_mario:
  "THEME st = ''mario'' \<Longrightarrow>
   current_theme_dir h st = Path (anchor (here h)) (parts (here h) @ [''themes'', ''mario''])"
  by (simp add: current_theme_dir_def themes_dir_parts joinpath_mario)

lemma theme_file_mario:
  "THEME st = ''mario'' \<Longrightarrow>
   joinpath (current_theme_dir h st) (''success'' @ ''.wav'') = theme_file h ''mario'' ''success.wav''"
  "THEME st = ''mario'' \<Longrightarrow>
   joinpath (current_theme_dir h st) (''warning'' @ ''.wav'') = theme_file h ''mario'' ''warning.wav''"
  "THEME st = ''mario'' \<Longrightarrow>
   joinpath (current_theme_dir h st) (''error'' @ ''.wav'') = theme_file h ''mario'' ''error.wav''"
  "THEME st = ''mario'' \<Longrightarrow>
   joinpath (current_theme_dir h st) (''info'' @ ''.wav'') = theme_file h ''mario'' ''info.wav''"
  by (simp_all add: current_theme_dir_mario joinpath_wav theme_file_def)

section \<open>The example hosts\<close>

lemma mac_fields:
  "platform mac_host = ''darwin''" "here mac_host = Path ''/'' [''pkg'']"
  by (simp_all add: mac_host_def)

lemma mac_themes_dir: "themes_dir mac_host = Path ''/'' [''pkg'', ''themes'']"
  by (simp add: themes_dir_parts mac_host_def)

lemma mac_listdir:
  "listdir mac_host (Path ''/'' [''pkg'', ''themes'']) = Some [''mario'', ''README.md'']"
  by (simp add: mac_host_def)

lemma mac_path_exists:
  "path_exists mac_host (Path ''/'' [''pkg'', ''themes'', ''mario'', ''success.wav'']) = Inr True"
  "path_exists mac_host (Path ''/'' [''pkg'', ''themes'', ''mario'', ''warning.wav'']) = Inr True"
  "path_exists mac_host (Path ''/'' [''pkg'', ''themes'', ''mario'', ''error.wav'']) = Inr True"
  "path_exists mac_host (Path ''/'' [''pkg'', ''themes'', ''mario'', ''info.wav'']) = Inr True"
  "path_exists mac_host (Path ''/'' [''pkg'', ''themes'', ''mario'', ''bell.wav'']) = Inr False"
  by (simp_all add: path_exists_def mac_host_def ignore_error_def)

text \<open>An event of 252 bytes gives a file name of 256 bytes, which the host refuses.\<close>

lemma mac_long_name:
  "stat mac_host (Path ''/'' [''pkg'', ''themes'', ''mario'', replicate 252 CHR ''a'' @ ''.wav''])
     = Some ENAMETOOLONG"
  "path_exists mac_host (Path ''/'' [''pkg'', ''themes'', ''mario'', replicate 252 CHR ''a'' @ ''.wav''])
     = Inl OSError"
  by (simp_all add: path_exists_def mac_host_def ignore_error_def)

lemma linux_path_exists: "path_exists linux_host p = path_exists mac_host p"
  by (simp add: path_exists_def linux_host_def)

lemma mac_theme_file:
  "theme_file mac_host ''mario'' f = Path ''/'' [''pkg'', ''themes'', ''mario'', f]"
  by (simp add: theme_file_def mac_fields)

lemma init_state_fields: "THEME init_state = ''mario''" "trace init_state = []"
  by (simp_all add: init_state_def)

section \<open>The available themes and the current theme\<close>

lemma THEME_emit [simp]: "THEME (emit e st) = THEME st"
  by (simp add: emit_def)

lemma excepthook_emit [simp]: "excepthook (emit e st) = excepthook st"
  by (simp add: emit_def)

lemma themes_value:
  "themes h st =
     ((case listdir h (themes_dir h) of None \<Rightarrow> Inl OSError | Some entries \<Rightarrow> Inr (set entries)),
      emit (Listdir (themes_dir h)) st)"
  by (simp add: themes_def Let_def path_name_child split: option.split)

lemma mac_themes: "fst (themes mac_host st) = Inr {''mario'', ''README.md''}"
  by (simp add: themes_value mac_themes_dir mac_listdir)

lemma mac_directory_names: "directory_names mac_host = {''mario''}"
  by (simp add: directory_names_def mac_themes_dir mac_listdir make_child_relpath_def)
     (simp add: mac_host_def)

text \<open>
  C1. When \<open>themes()\<close> returns a set and \<open>name\<close> is not a member of it, \<open>theme(name)\<close>
  raises \<open>ValueError\<close> (\<open>Unknown theme (name)\<close>), whatever the host and the state.
\<close>

theorem theme_unknown_raises:
  assumes "fst (themes h st) = Inr available" and "name \<notin> available"
  shows "fst (theme h (Some name) st) = Inl (ValueError (''Unknown theme ('' @ name @ '')''))"
proof (cases "themes h st")
  case (Pair r st1)
  with assms(1) have "r = Inr available" by simp
  with Pair assms(2) show ?thesis by (simp add: theme_def)
qed

theorem theme_unknown_raises_witness:
  "fst (themes mac_host init_state) = Inr {''mario'', ''README.md''}
   \<and> ''zelda'' \<notin> {''mario'', ''README.md''}
   \<and> fst (theme mac_host (Some ''zelda'') init_state) = Inl (ValueError ''Unknown theme (zelda)'')"
proof -
  have a: "fst (themes mac_host init_state) = Inr {''mario'', ''README.md''}"
    by (rule mac_themes)
  have b: "''zelda'' \<notin> {''mario'', ''README.md''}" by simp
  from theme_unknown_raises [OF a b] a b show ?thesis by simp
qed

text \<open>
  C2, as stated, fails: \<open>themes()\<close> takes the name of every entry that the listing of the
  themes root returns and never asks whether the entry is a directory. On \<open>mac_host\<close>
  the file \<open>README.md\<close> is in the result, and the result is not the set of directory
  names.
\<close>

theorem themes_includes_file_counterexample:
  "fst (themes mac_host init_state) = Inr {''mario'', ''README.md''}
   \<and> directory_names mac_host = {''mario''}
   \<and> fst (themes mac_host init_state) \<noteq> Inr (directory_names mac_host)"
  by (simp add: mac_themes mac_directory_names)

text \<open>
  C2, amended. \<open>themes()\<close> returns exactly the set of the names of all entries under the
  themes root, of whatever kind, as the listing gives them at the time of the call; it
  raises an I/O error when the root cannot be listed. No directory is omitted: the names
  of the directories are among the names returned.
\<close>

theorem themes_every_entry:
  "fst (themes h st) =
     (case listdir h (themes_dir h) of None \<Rightarrow> Inl OSError | Some entries \<Rightarrow> Inr (set entries))
   \<and> (\<forall>S. fst (themes h st) = Inr S \<longrightarrow> directory_names h \<subseteq> S)"
  by (auto simp: themes_value directory_names_def split: option.splits)

theorem themes_every_entry_witness:
  "fst (themes mac_host init_state) = Inr (set [''mario'', ''README.md''])
   \<and> directory_names mac_host \<subseteq> set [''mario'', ''README.md'']"
  using themes_every_entry [of mac_host init_state]
  by (simp add: mac_themes_dir mac_listdir)

text \<open>
  C10. When \<open>theme(name)\<close> raises, whatever the exception, the current theme is the one
  before the call: the state differs from the one before only by the listing of the
  themes root in the trace.
\<close>

theorem theme_failure_keeps_THEME:
  "fst (theme h name st) = Inl x \<Longrightarrow>
   THEME (snd (theme h name st)) = THEME st
   \<and> snd (theme h name st) = emit (Listdir (themes_dir h)) st"
  by (auto simp: theme_def themes_value split: option.splits if_splits)

theorem theme_failure_keeps_THEME_witness:
  "fst (theme mac_host (Some ''zelda'') init_state) = Inl (ValueError ''Unknown theme (zelda)'')
   \<and> THEME (snd (theme mac_host (Some ''zelda'') init_state)) = THEME init_state
   \<and> snd (theme mac_host (Some ''zelda'') init_state) = emit (Listdir (themes_dir mac_host)) init_state"
proof -
  have a: "fst (theme mac_host (Some ''zelda'') init_state) = Inl (ValueError ''Unknown theme (zelda)'')"
    by (simp add: theme_def themes_value mac_themes_dir mac_listdir)
  from theme_failure_keeps_THEME [OF a] a show ?thesis by simp
qed

section \<open>Running the player\<close>

lemma run_silent:
  "run h command True st = (Inr (), emit (Popen command DEVNULL) st)"
  by (simp add: run_def)

lemma decode_0xFF: "decode [char_of (0xFF :: nat)] = Inl UnicodeDecodeError"
  by (simp add: decode_def utf8_valid.simps [of "[char_of (0xFF :: nat)]"] utf8_seq_len_def byte_in_def)

text \<open>
  A player that exits with a non-zero status on the blocking path: one warning that holds
  the stripped error output, and a normal return, provided the output decodes.
\<close>

lemma run_blocking_failure:
  "returncode (run_outcome h command) \<noteq> 0 \<Longrightarrow>
   run h command False st
     = (case decode (stderr (run_outcome h command)) of
          Inl x \<Rightarrow> (Inl x, emit (Run command PIPE) st)
        | Inr text \<Rightarrow>
            (Inr (), st\<lparr>trace := trace st @
               [Run command PIPE,
                Warn (str_CalledProcessError h command (returncode (run_outcome h command))
                      @ '' stderr: '' @ strip text)]\<rparr>))"
  by (simp add: run_def Let_def emit_def split: sum.split)

lemma run_blocking_warns:
  "returncode (run_outcome h command) \<noteq> 0 \<Longrightarrow> utf8_valid (stderr (run_outcome h command)) \<Longrightarrow>
   run h command False st
     = (Inr (), st\<lparr>trace := trace st @
               [Run command PIPE,
                Warn (str_CalledProcessError h command (returncode (run_outcome h command))
                      @ '' stderr: '' @ strip (stderr (run_outcome h command)))]\<rparr>)"
  by (simp add: run_blocking_failure decode_def)

section \<open>Notifications\<close>

lemma path_exists_run_outcome:
  "path_exists (h\<lparr>run_outcome := outcome\<rparr>) p = path_exists h p"
  by (simp add: path_exists_def)

lemma notify_at:
  assumes "joinpath (current_theme_dir h st) (event @ ''.wav'') = p"
  shows "notify h event silent st =
           (case path_exists h p of
              Inl x \<Rightarrow> (Inl x, emit (Stat p) st)
            | Inr found \<Rightarrow>
                if found then play_wav h p (Some silent) (emit (Stat p) st)
                else (Inl (ValueError (str_path p @ '' is undefined'')), emit (Stat p) st))"
  using assms by (simp add: notify_def Let_def split: sum.split)

lemma notify_silent:
  "notify h event True st =
     (let p = joinpath (current_theme_dir h st) (event @ ''.wav'')
      in case path_exists h p of
           Inl x \<Rightarrow> (Inl x, st\<lparr>trace := trace st @ [Stat p]\<rparr>)
         | Inr found \<Rightarrow>
             if \<not> found
             then (Inl (ValueError (str_path p @ '' is undefined'')), st\<lparr>trace := trace st @ [Stat p]\<rparr>)
             else if platform h \<noteq> ''darwin''
             then (Inl (RuntimeError (''Unsupported platform ('' @ platform h @ '')'')),
                   st\<lparr>trace := trace st @ [Stat p]\<rparr>)
             else (Inr (), st\<lparr>trace := trace st @ [Stat p, Popen (''afplay '' @ str_path p) DEVNULL]\<rparr>))"
  by (simp add: notify_def play_wav_def run_silent kwarg_def Let_def emit_def split: sum.split)

lemma mac_error_path:
  "joinpath (current_theme_dir mac_host init_state) (''error'' @ ''.wav'')
     = Path ''/'' [''pkg'', ''themes'', ''mario'', ''error.wav'']"
  by (simp add: current_theme_dir_mario init_state_def mac_fields joinpath_wav)

text \<open>
  C4. On a platform other than \<open>darwin\<close>, \<open>play_wav\<close> raises \<open>RuntimeError\<close> for every
  path and every flag (given or omitted), and the state is the one it was called in: no
  player was started. So every \<open>notify\<close> fails there, and all it has done is to test
  the sound file.
\<close>

theorem play_wav_unsupported_platform:
  "platform h \<noteq> ''darwin'' \<Longrightarrow>
   play_wav h p silent st
     = (Inl (RuntimeError (''Unsupported platform ('' @ platform h @ '')'')), st)
   \<and> isl (fst (notify h event flag st))
   \<and> trace (snd (notify h event flag st))
       = trace st @ [Stat (joinpath (current_theme_dir h st) (event @ ''.wav''))]"
  by (simp add: play_wav_def notify_def Let_def emit_def split: sum.split)

theorem play_wav_unsupported_platform_witness:
  "platform linux_host \<noteq> ''darwin''
   \<and> play_wav linux_host (Path ''/'' [''pkg'', ''themes'', ''mario'', ''info.wav'']) (Some False) init_state
       = (Inl (RuntimeError ''Unsupported platform (linux)''), init_state)
   \<and> notify linux_host ''info'' False init_state
       = (Inl (RuntimeError ''Unsupported platform (linux)''),
          init_state\<lparr>trace := [Stat (Path ''/'' [''pkg'', ''themes'', ''mario'', ''info.wav''])]\<rparr>)"
proof -
  have a: "platform linux_host \<noteq> ''darwin''" by (simp add: linux_host_def)
  have b: "platform linux_host = ''linux''" by (simp add: linux_host_def)
  have p: "joinpath (current_theme_dir linux_host init_state) (''info'' @ ''.wav'')
             = Path ''/'' [''pkg'', ''themes'', ''mario'', ''info.wav'']"
    by (simp add: current_theme_dir_mario init_state_fields joinpath_wav linux_host_def mac_fields)
  have e: "path_exists linux_host (Path ''/'' [''pkg'', ''themes'', ''mario'', ''info.wav'']) = Inr True"
    by (simp add: linux_path_exists mac_path_exists)
  have n: "notify linux_host ''info'' False init_state
       = (Inl (RuntimeError ''Unsupported platform (linux)''),
          init_state\<lparr>trace := [Stat (Path ''/'' [''pkg'', ''themes'', ''mario'', ''info.wav''])]\<rparr>)"
    by (simp add: notify_at [OF p] e play_wav_def b emit_def init_state_fields)
  from play_wav_unsupported_platform
         [OF a, of "Path ''/'' [''pkg'', ''themes'', ''mario'', ''info.wav'']" "Some False" init_state] a n
  show ?thesis by (simp add: b)
qed

text \<open>
  C3, as stated, fails. The claim knows two cases, the file is there or it is not. The
  test at the head of \<open>notify\<close> is \<open>Path.exists()\<close>, which has a third outcome: an
  \<open>OSError\<close> of \<open>os.stat\<close> that is not one of the ignored ones is raised again. For an
  event of 252 bytes on \<open>mac_host\<close> no such file exists, and \<open>notify\<close> raises
  \<open>OSError\<close>: neither the \<open>ValueError\<close> of the claim nor a call of \<open>play_wav\<close>.
\<close>

theorem notify_name_too_long_counterexample:
  "stat mac_host (Path ''/'' [''pkg'', ''themes'', ''mario'', replicate 252 CHR ''a'' @ ''.wav''])
     = Some ENAMETOOLONG
   \<and> notify mac_host (replicate 252 CHR ''a'') False init_state
       = (Inl OSError,
          emit (Stat (Path ''/'' [''pkg'', ''themes'', ''mario'', replicate 252 CHR ''a'' @ ''.wav'']))
            init_state)
   \<and> notify mac_host (replicate 252 CHR ''a'') False init_state
       \<noteq> (Inl (ValueError
                 (str_path (Path ''/'' [''pkg'', ''themes'', ''mario'', replicate 252 CHR ''a'' @ ''.wav''])
                  @ '' is undefined'')),
            emit (Stat (Path ''/'' [''pkg'', ''themes'', ''mario'', replicate 252 CHR ''a'' @ ''.wav'']))
              init_state)
   \<and> notify mac_host (replicate 252 CHR ''a'') False init_state
       \<noteq> play_wav mac_host
            (Path ''/'' [''pkg'', ''themes'', ''mario'', replicate 252 CHR ''a'' @ ''.wav'']) (Some False)
            (emit (Stat (Path ''/'' [''pkg'', ''themes'', ''mario'', replicate 252 CHR ''a'' @ ''.wav'']))
               init_state)"
proof -
  have p: "joinpath (current_theme_dir mac_host init_state) (replicate 252 CHR ''a'' @ ''.wav'')
             = Path ''/'' [''pkg'', ''themes'', ''mario'', replicate 252 CHR ''a'' @ ''.wav'']"
    by (simp add: joinpath_event_wav current_theme_dir_mario init_state_fields mac_fields
        make_child_relpath_def)
  have n: "notify mac_host (replicate 252 CHR ''a'') False init_state
       = (Inl OSError,
          emit (Stat (Path ''/'' [''pkg'', ''themes'', ''mario'', replicate 252 CHR ''a'' @ ''.wav'']))
            init_state)"
    by (simp add: notify_at [OF p] mac_long_name)
  have r: "fst (play_wav mac_host q (Some False) st) = Inl UnicodeDecodeError" for q st
    by (simp add: play_wav_def mac_fields kwarg_def run_blocking_failure mac_host_def decode_0xFF)
  have "fst (notify mac_host (replicate 252 CHR ''a'') False init_state)
          \<noteq> fst (play_wav mac_host
            (Path ''/'' [''pkg'', ''themes'', ''mario'', replicate 252 CHR ''a'' @ ''.wav'']) (Some False)
            (emit (Stat (Path ''/'' [''pkg'', ''themes'', ''mario'', replicate 252 CHR ''a'' @ ''.wav'']))
               init_state))"
    by (simp add: n r)
  then have d: "notify mac_host (replicate 252 CHR ''a'') False init_state
       \<noteq> play_wav mac_host
            (Path ''/'' [''pkg'', ''themes'', ''mario'', replicate 252 CHR ''a'' @ ''.wav'']) (Some False)
            (emit (Stat (Path ''/'' [''pkg'', ''themes'', ''mario'', replicate 252 CHR ''a'' @ ''.wav'']))
               init_state)"
    by metis
  show ?thesis using d by (simp add: n mac_long_name)
qed

text \<open>
  C3, amended. \<open>notify(event, silent)\<close> joins the current theme's directory and
  \<open>event.wav\<close> as \<open>pathlib\<close> does: for an event without a slash that is the file
  \<open>event.wav\<close> in that directory (a rooted event gives the rooted path itself). It tests
  the path with \<open>Path.exists()\<close>, and there are three outcomes and no other. When the
  test says that the path does not exist, \<open>notify\<close> raises \<open>ValueError\<close>, having
  spawned nothing; when it says that the path exists, the call is \<open>play_wav\<close> on that
  very path, with the flag it was given; when the test itself raises \<open>OSError\<close>, that
  exception leaves \<open>notify\<close> and nothing is played.
\<close>

theorem notify_tests_then_plays:
  "(let p = joinpath (current_theme_dir h st) (event @ ''.wav'')
    in (path_exists h p = Inr False \<longrightarrow>
          notify h event silent st
            = (Inl (ValueError (str_path p @ '' is undefined'')), emit (Stat p) st))
       \<and> (path_exists h p = Inr True \<longrightarrow>
          notify h event silent st = play_wav h p (Some silent) (emit (Stat p) st))
       \<and> (path_exists h p = Inl OSError \<longrightarrow>
          notify h event silent st = (Inl OSError, emit (Stat p) st))
       \<and> (path_exists h p = Inr False \<or> path_exists h p = Inr True \<or> path_exists h p = Inl OSError)
       \<and> (CHR ''/'' \<notin> set event \<longrightarrow>
          p = make_child_relpath (current_theme_dir h st) (event @ ''.wav'')))"
proof -
  have "path_exists h p = Inr False \<or> path_exists h p = Inr True \<or> path_exists h p = Inl OSError"
    for p
    by (simp add: path_exists_def split: option.split)
  then show ?thesis
    by (simp add: notify_def Let_def joinpath_event_wav)
qed

theorem notify_tests_then_plays_witness:
  "path_exists mac_host (Path ''/'' [''pkg'', ''themes'', ''mario'', ''bell.wav'']) = Inr False
   \<and> notify mac_host ''bell'' False init_state
       = (Inl (ValueError ''/pkg/themes/mario/bell.wav is undefined''),
          emit (Stat (Path ''/'' [''pkg'', ''themes'', ''mario'', ''bell.wav''])) init_state)
   \<and> path_exists mac_host (Path ''/'' [''pkg'', ''themes'', ''mario'', ''success.wav'']) = Inr True
   \<and> notify mac_host ''success'' True init_state
       = play_wav mac_host (Path ''/'' [''pkg'', ''themes'', ''mario'', ''success.wav'']) (Some True)
           (emit (Stat (Path ''/'' [''pkg'', ''themes'', ''mario'', ''success.wav''])) init_state)
   \<and> path_exists mac_host (Path ''/'' [''pkg'', ''themes'', ''mario'', replicate 252 CHR ''a'' @ ''.wav''])
       = Inl OSError
   \<and> notify mac_host (replicate 252 CHR ''a'') True init_state
       = (Inl OSError,
          emit (Stat (Path ''/'' [''pkg'', ''themes'', ''mario'', replicate 252 CHR ''a'' @ ''.wav'']))
            init_state)
   \<and> CHR ''/'' \<notin> set ''bell''
   \<and> joinpath (current_theme_dir mac_host init_state) (''bell'' @ ''.wav'')
       = make_child_relpath (current_theme_dir mac_host init_state) (''bell'' @ ''.wav'')"
proof -
  have d: "current_theme_dir mac_host init_state = Path ''/'' [''pkg'', ''themes'', ''mario'']"
    by (simp add: current_theme_dir_mario init_state_fields mac_fields)
  have bell: "joinpath (Path ''/'' [''pkg'', ''themes'', ''mario'']) (''bell'' @ ''.wav'')
                = Path ''/'' [''pkg'', ''themes'', ''mario'', ''bell.wav'']"
    by (simp add: joinpath_def parse_part_def splitroot_def)
  have success: "joinpath (Path ''/'' [''pkg'', ''themes'', ''mario'']) (''success'' @ ''.wav'')
                = Path ''/'' [''pkg'', ''themes'', ''mario'', ''success.wav'']"
    by (simp add: joinpath_wav)
  have long: "joinpath (Path ''/'' [''pkg'', ''themes'', ''mario'']) (replicate 252 CHR ''a'' @ ''.wav'')
                = Path ''/'' [''pkg'', ''themes'', ''mario'', replicate 252 CHR ''a'' @ ''.wav'']"
    by (simp add: joinpath_event_wav make_child_relpath_def)
  have s: "str_path (Path ''/'' [''pkg'', ''themes'', ''mario'', ''bell.wav''])
             = ''/pkg/themes/mario/bell.wav''"
    by (simp add: str_path_def)
  have c: "make_child_relpath (Path ''/'' [''pkg'', ''themes'', ''mario'']) (''bell'' @ ''.wav'')
             = Path ''/'' [''pkg'', ''themes'', ''mario'', ''bell.wav'']"
    by (simp add: make_child_relpath_def)
  from notify_tests_then_plays [of mac_host init_state "''bell''" False]
       notify_tests_then_plays [of mac_host init_state "''success''" True]
       notify_tests_then_plays [of mac_host init_state "replicate 252 CHR ''a''" True]
  show ?thesis
    unfolding Let_def d bell success long s c
    by (simp add: mac_path_exists mac_long_name make_child_relpath_def)
qed

text \<open>
  C5. The blocking path catches \<open>CalledProcessError\<close> and builds the warning from
  \<open>e.stderr.decode()\<close> inside the handler. When the player's error output is not
  well-formed UTF-8 the decoding raises \<open>UnicodeDecodeError\<close> there: no warning is
  issued and the exception reaches the caller, here of \<open>run\<close> and of
  \<open>error(silent=False)\<close>.
\<close>

theorem run_blocking_undecodable_stderr_raises:
  "run_outcome mac_host ''afplay /pkg/themes/mario/error.wav'' = Completed 1 [char_of (0xFF :: nat)]
   \<and> run mac_host ''afplay /pkg/themes/mario/error.wav'' False init_state
       = (Inl UnicodeDecodeError, emit (Run ''afplay /pkg/themes/mario/error.wav'' PIPE) init_state)
   \<and> error mac_host (Some False) init_state
       = (Inl UnicodeDecodeError,
          init_state\<lparr>trace := [Stat (Path ''/'' [''pkg'', ''themes'', ''mario'', ''error.wav'']),
                                Run ''afplay /pkg/themes/mario/error.wav'' PIPE]\<rparr>)"
proof -
  have o: "run_outcome mac_host c = Completed 1 [char_of (0xFF :: nat)]" for c
    by (simp add: mac_host_def)
  have r: "run mac_host c False st = (Inl UnicodeDecodeError, emit (Run c PIPE) st)" for c st
    by (simp add: run_blocking_failure o decode_0xFF)
  have e: "error mac_host (Some False) init_state
             = (Inl UnicodeDecodeError,
                emit (Run ''afplay /pkg/themes/mario/error.wav'' PIPE)
                  (emit (Stat (Path ''/'' [''pkg'', ''themes'', ''mario'', ''error.wav''])) init_state))"
    by (simp add: error_def kwarg_def notify_at [OF mac_error_path] mac_path_exists play_wav_def
        mac_fields r str_path_def)
  show ?thesis by (simp add: o r e emit_def init_state_fields)
qed

text \<open>With a readable message the same call warns once and returns.\<close>

lemma mac_ascii_warns:
  "run mac_host_ascii ''afplay x'' False init_state
     = (Inr (), init_state\<lparr>trace := [Run ''afplay x'' PIPE,
                                     Warn (''Command '' @ [CHR 0x27] @ ''afplay x'' @ [CHR 0x27]
                                           @ '' returned non-zero exit status 1.''
                                           @ '' stderr: no audio device'')]\<rparr>)"
  apply (simp add: run_def Let_def mac_host_ascii_def mac_host_def emit_def init_state_def)
  apply code_simp
  done

text \<open>
  C6. With the current theme \<open>mario\<close>, which is the theme after the import, each of
  \<open>success\<close>, \<open>warning\<close>, \<open>error\<close> and \<open>info\<close> tests and plays the file
  \<open>themes/mario/<its own event>.wav\<close> below the directory of the module, for every
  host and every flag.
\<close>

theorem wrappers_resolve_under_mario:
  "THEME init_state = ''mario''
   \<and> (THEME st = ''mario'' \<longrightarrow>
       success h silent st =
         (let p = theme_file h ''mario'' ''success.wav''
          in case path_exists h p of
               Inl x \<Rightarrow> (Inl x, emit (Stat p) st)
             | Inr found \<Rightarrow>
                 if found then play_wav h p (Some (kwarg True silent)) (emit (Stat p) st)
                 else (Inl (ValueError (str_path p @ '' is undefined'')), emit (Stat p) st))
       \<and> warning h silent st =
         (let p = theme_file h ''mario'' ''warning.wav''
          in case path_exists h p of
               Inl x \<Rightarrow> (Inl x, emit (Stat p) st)
             | Inr found \<Rightarrow>
                 if found then play_wav h p (Some (kwarg True silent)) (emit (Stat p) st)
                 else (Inl (ValueError (str_path p @ '' is undefined'')), emit (Stat p) st))
       \<and> error h silent st =
         (let p = theme_file h ''mario'' ''error.wav''
          in case path_exists h p of
               Inl x \<Rightarrow> (Inl x, emit (Stat p) st)
             | Inr found \<Rightarrow>
                 if found then play_wav h p (Some (kwarg True silent)) (emit (Stat p) st)
                 else (Inl (ValueError (str_path p @ '' is undefined'')), emit (Stat p) st))
       \<and> info h silent st =
         (let p = theme_file h ''mario'' ''info.wav''
          in case path_exists h p of
               Inl x \<Rightarrow> (Inl x, emit (Stat p) st)
             | Inr found \<Rightarrow>
                 if found then play_wav h p (Some (kwarg True silent)) (emit (Stat p) st)
                 else (Inl (ValueError (str_path p @ '' is undefined'')), emit (Stat p) st)))"
proof -
  have "THEME init_state = ''mario''" by (simp add: init_state_def)
  moreover have "success h silent st =
         (let p = theme_file h ''mario'' ''success.wav''
          in case path_exists h p of
               Inl x \<Rightarrow> (Inl x, emit (Stat p) st)
             | Inr found \<Rightarrow>
                 if found then play_wav h p (Some (kwarg True silent)) (emit (Stat p) st)
                 else (Inl (ValueError (str_path p @ '' is undefined'')), emit (Stat p) st))"
    if "THEME st = ''mario''"
    unfolding success_def Let_def by (rule notify_at) (rule theme_file_mario [OF that])
  moreover have "warning h silent st =
         (let p = theme_file h ''mario'' ''warning.wav''
          in case path_exists h p of
               Inl x \<Rightarrow> (Inl x, emit (Stat p) st)
             | Inr found \<Rightarrow>
                 if found then play_wav h p (Some (kwarg True silent)) (emit (Stat p) st)
                 else (Inl (ValueError (str_path p @ '' is undefined'')), emit (Stat p) st))"
    if "THEME st = ''mario''"
    unfolding warning_def Let_def by (rule notify_at) (rule theme_file_mario [OF that])
  moreover have "error h silent st =
         (let p = theme_file h ''mario'' ''error.wav''
          in case path_exists h p of
               Inl x \<Rightarrow> (Inl x, emit (Stat p) st)
             | Inr found \<Rightarrow>
                 if found then play_wav h p (Some (kwarg True silent)) (emit (Stat p) st)
                 else (Inl (ValueError (str_path p @ '' is undefined'')), emit (Stat p) st))"
    if "THEME st = ''mario''"
    unfolding error_def Let_def by (rule notify_at) (rule theme_file_mario [OF that])
  moreover have "info h silent st =
         (let p = theme_file h ''mario'' ''info.wav''
          in case path_exists h p of
               Inl x \<Rightarrow> (Inl x, emit (Stat p) st)
             | Inr found \<Rightarrow>
                 if found then play_wav h p (Some (kwarg True silent)) (emit (Stat p) st)
                 else (Inl (ValueError (str_path p @ '' is undefined'')), emit (Stat p) st))"
    if "THEME st = ''mario''"
    unfolding info_def Let_def by (rule notify_at) (rule theme_file_mario [OF that])
  ultimately show ?thesis by blast
qed

theorem wrappers_resolve_under_mario_witness:
  "THEME init_state = ''mario''
   \<and> success mac_host None init_state
       = (Inr (), init_state\<lparr>trace := [Stat (Path ''/'' [''pkg'', ''themes'', ''mario'', ''success.wav'']),
                                       Popen ''afplay /pkg/themes/mario/success.wav'' DEVNULL]\<rparr>)
   \<and> warning mac_host None init_state
       = (Inr (), init_state\<lparr>trace := [Stat (Path ''/'' [''pkg'', ''themes'', ''mario'', ''warning.wav'']),
                                       Popen ''afplay /pkg/themes/mario/warning.wav'' DEVNULL]\<rparr>)
   \<and> error mac_host None init_state
       = (Inr (), init_state\<lparr>trace := [Stat (Path ''/'' [''pkg'', ''themes'', ''mario'', ''error.wav'']),
                                       Popen ''afplay /pkg/themes/mario/error.wav'' DEVNULL]\<rparr>)
   \<and> info mac_host None init_state
       = (Inr (), init_state\<lparr>trace := [Stat (Path ''/'' [''pkg'', ''themes'', ''mario'', ''info.wav'']),
                                       Popen ''afplay /pkg/themes/mario/info.wav'' DEVNULL]\<rparr>)"
proof -
  from wrappers_resolve_under_mario [of init_state mac_host None] init_state_fields(1)
  show ?thesis
    by (simp add: Let_def mac_theme_file mac_path_exists play_wav_def mac_fields kwarg_def
        run_silent emit_def init_state_fields(2) str_path_def)
qed

text \<open>
  C9. Called without an argument, each wrapper is \<open>notify\<close> with \<open>silent=True\<close>. That
  call raises what the existence test raises, \<open>ValueError\<close> for a missing file and
  \<open>RuntimeError\<close> off \<open>darwin\<close>; in every other case it returns normally, and all it has done is to test the file and to
  start the player with \<open>Popen\<close>, the error output sent to \<open>DEVNULL\<close>: it never runs the
  player to its end and never warns. What the player would exit with has no part in the
  result.
\<close>

theorem wrappers_default_fire_and_forget:
  "success h None st = notify h ''success'' True st
   \<and> warning h None st = notify h ''warning'' True st
   \<and> error h None st = notify h ''error'' True st
   \<and> info h None st = notify h ''info'' True st
   \<and> notify h event True st =
       (let p = joinpath (current_theme_dir h st) (event @ ''.wav'')
        in case path_exists h p of
             Inl x \<Rightarrow> (Inl x, st\<lparr>trace := trace st @ [Stat p]\<rparr>)
           | Inr found \<Rightarrow>
               if \<not> found
               then (Inl (ValueError (str_path p @ '' is undefined'')),
                     st\<lparr>trace := trace st @ [Stat p]\<rparr>)
               else if platform h \<noteq> ''darwin''
               then (Inl (RuntimeError (''Unsupported platform ('' @ platform h @ '')'')),
                     st\<lparr>trace := trace st @ [Stat p]\<rparr>)
               else (Inr (), st\<lparr>trace := trace st @
                       [Stat p, Popen (''afplay '' @ str_path p) DEVNULL]\<rparr>))
   \<and> notify (h\<lparr>run_outcome := outcome\<rparr>) event True st = notify h event True st"
  by (simp add: success_def warning_def error_def info_def kwarg_def notify_silent
      current_theme_dir_def themes_dir_def Let_def path_exists_run_outcome split: sum.split)

theorem wrappers_default_fire_and_forget_witness:
  "error mac_host None init_state
     = (Inr (), init_state\<lparr>trace := [Stat (Path ''/'' [''pkg'', ''themes'', ''mario'', ''error.wav'']),
                                     Popen ''afplay /pkg/themes/mario/error.wav'' DEVNULL]\<rparr>)
   \<and> notify mac_host_ascii ''error'' True init_state = notify mac_host ''error'' True init_state"
proof -
  from wrappers_default_fire_and_forget [of mac_host init_state "''error''"
         "\<lambda>command. Completed 1 ''  no audio device \<newline>''"]
  show ?thesis
    unfolding Let_def mac_error_path mac_host_ascii_def [symmetric]
    by (simp add: mac_path_exists mac_fields str_path_def init_state_fields)
qed

section \<open>The exception hook\<close>










section \<open>The current theme across calls\<close>

lemma run_THEME: "THEME (snd (run h command silent st)) = THEME st"
  by (simp add: run_def Let_def split: sum.split)

lemma play_wav_THEME: "THEME (snd (play_wav h p silent st)) = THEME st"
  by (simp add: play_wav_def run_THEME)

lemma notify_THEME: "THEME (snd (notify h event silent st)) = THEME st"
  by (simp add: notify_def Let_def play_wav_THEME split: sum.split)

lemma themes_THEME: "THEME (snd (themes h st)) = THEME st"
  by (simp add: themes_value)

lemma notify_exceptions_THEME: "THEME (snd (notify_exceptions h st)) = THEME st"
  by (simp add: notify_exceptions_def Let_def)

lemma uncaught_THEME: "THEME (snd (uncaught h exc st)) = THEME st"
proof (cases "error h (Some True) st")
  case (Pair r st1)
  have "THEME (snd (error h (Some True) st)) = THEME st"
    by (simp add: error_def notify_THEME)
  with Pair have "THEME st1 = THEME st" by simp
  with Pair show ?thesis
    by (simp add: uncaught_def except_hook_def split: hook.split sum.split)
qed

text \<open>
  C7. In the state the import leaves, \<open>theme()\<close> returns \<open>mario\<close>. Whenever
  \<open>theme(name)\<close> returns normally, a following \<open>theme()\<close> returns \<open>name\<close>, whatever
  the host has become in between, and leaves the state as it is. No other call changes
  the current theme: not \<open>theme()\<close>, \<open>themes\<close>, \<open>play_wav\<close>, \<open>notify\<close> (so none of
  the four wrappers), \<open>notify_exceptions\<close>, nor the handling of an uncaught exception.
\<close>

theorem theme_get_set_roundtrip:
  "theme h None init_state = (Inr (Some ''mario''), init_state)
   \<and> (theme h (Some name) st = (Inr r, st') \<longrightarrow> theme h' None st' = (Inr (Some name), st'))
   \<and> THEME (snd (theme h None st)) = THEME st
   \<and> THEME (snd (themes h st)) = THEME st
   \<and> THEME (snd (play_wav h p silent st)) = THEME st
   \<and> THEME (snd (notify h event flag st)) = THEME st
   \<and> THEME (snd (notify_exceptions h st)) = THEME st
   \<and> THEME (snd (uncaught h exc st)) = THEME st"
proof -
  have "theme h None init_state = (Inr (Some ''mario''), init_state)"
    by (simp add: theme_def init_state_def)
  moreover have "theme h' None st' = (Inr (Some name), st')"
    if "theme h (Some name) st = (Inr r, st')"
    using that by (auto simp: theme_def themes_value split: option.splits if_splits)
  moreover have "THEME (snd (theme h None st)) = THEME st"
    by (simp add: theme_def)
  ultimately show ?thesis
    by (simp add: themes_THEME play_wav_THEME notify_THEME notify_exceptions_THEME uncaught_THEME)
qed

theorem theme_get_set_roundtrip_witness:
  "theme mac_host None init_state = (Inr (Some ''mario''), init_state)
   \<and> theme mac_host (Some ''README.md'') init_state
       = (Inr None, init_state\<lparr>THEME := ''README.md'', trace := [Listdir (Path ''/'' [''pkg'', ''themes''])]\<rparr>)
   \<and> theme linux_host None
        (init_state\<lparr>THEME := ''README.md'', trace := [Listdir (Path ''/'' [''pkg'', ''themes''])]\<rparr>)
       = (Inr (Some ''README.md''),
          init_state\<lparr>THEME := ''README.md'', trace := [Listdir (Path ''/'' [''pkg'', ''themes''])]\<rparr>)"
proof -
  have s: "theme mac_host (Some ''README.md'') init_state
       = (Inr None, init_state\<lparr>THEME := ''README.md'', trace := [Listdir (Path ''/'' [''pkg'', ''themes''])]\<rparr>)"
    by (simp add: theme_def themes_value mac_themes_dir mac_listdir emit_def init_state_def)
  from theme_get_set_roundtrip [of mac_host "''README.md''" init_state None
      "init_state\<lparr>THEME := ''README.md'', trace := [Listdir (Path ''/'' [''pkg'', ''themes''])]\<rparr>" linux_host]
    s
  show ?thesis by simp
qed

end
